theory Spec2Isabelle
  imports Complex_Main
begin

section \<open>JavaScript values, requests and responses\<close>

text \<open>
  The values that reach the controllers through \<^verbatim>\<open>express.json()\<close> and the values
  they send back with \<^verbatim>\<open>res.json\<close>. \<open>JUndefined\<close> is the value of a property that
  the request body does not have. JSON numbers are kept as integers: the controllers only
  compare a field with a string literal or test its truthiness, and on both a fraction
  behaves like a non-zero integer.
\<close>

datatype jsval =
    JUndefined
  | JNull
  | JBool bool
  | JNum int
  | JStr string
  | JArr "jsval list"
  | JObj "(string \<times> jsval) list"

text \<open>JavaScript's ToBoolean, as used by \<^verbatim>\<open>passphrase && ...\<close>.\<close>

fun truthy :: "jsval \<Rightarrow> bool" where
  "truthy JUndefined = False"
| "truthy JNull = False"
| "truthy (JBool b) = b"
| "truthy (JNum n) = (n \<noteq> 0)"
| "truthy (JStr s) = (s \<noteq> [])"
| "truthy (JArr xs) = True"
| "truthy (JObj kvs) = True"

text \<open>
  \<^verbatim>\<open>req.body\<close>: the parsed JSON object (the empty object when the request has no JSON
  body); destructuring a missing property gives undefined.
\<close>

type_synonym req_body = "string \<rightharpoonup> jsval"

definition get_prop :: "req_body \<Rightarrow> string \<Rightarrow> jsval" where
  "get_prop b k = (case b k of None \<Rightarrow> JUndefined | Some v \<Rightarrow> v)"

text \<open>
  What a handler sends: the HTTP status (\<^verbatim>\<open>res.status(n)\<close>, 200 when the handler
  calls \<^verbatim>\<open>res.json\<close> alone) and the JSON body, an object with its keys in order.
\<close>

record response =
  http_status :: nat
  body :: jsval

section \<open>The collaborators of the user controller\<close>

text \<open>
  The Mongoose model \<^verbatim>\<open>User\<close>, \<^verbatim>\<open>generateToken\<close> and \<^verbatim>\<open>generatePassphrase\<close> are
  imported by the controller and are parameters here. A stored user document carries the
  four properties the controller reads (\<^verbatim>\<open>_id\<close>, \<^verbatim>\<open>name\<close>, \<^verbatim>\<open>email\<close>, \<^verbatim>\<open>phone\<close>).
\<close>

record user =
  uid :: string
  uname :: string
  uemail :: string
  uphone :: string

text \<open>A thrown error, with its \<^verbatim>\<open>message\<close>.\<close>

datatype exn = Error string

text \<open>
  The store operations can reject or throw (\<open>Inl\<close>); \<^verbatim>\<open>findOne\<close> resolves to a document
  or to null. The token issuer and the passphrase generator are taken as returning a string.
\<close>

record env =
  findOne :: "jsval \<Rightarrow> exn + user option"
  matchPassword :: "user \<Rightarrow> jsval \<Rightarrow> exn + bool"
  verifyPassphrase :: "user \<Rightarrow> jsval \<Rightarrow> exn + bool"
  create :: "jsval \<Rightarrow> jsval \<Rightarrow> jsval \<Rightarrow> jsval \<Rightarrow> string \<Rightarrow> exn + user"
  generateToken :: "string \<Rightarrow> string"
  generatePassphrase :: string

text \<open>The calls a handler makes on its collaborators, in order.\<close>

datatype call =
    FindOne jsval
  | MatchPassword user jsval
  | VerifyPassphrase user jsval
  | Create jsval jsval jsval jsval string
  | GeneratePassphrase
  | GenerateToken string

section \<open>userController.js\<close>

definition admin_email :: string where
  "admin_email = ''admin@zamanix.com''"

definition admin_password :: string where
  "admin_password = ''zamanix_admin''"

definition error_body :: "string \<Rightarrow> jsval" where
  "error_body msg = JObj [(''status'', JStr ''error''), (''message'', JStr msg)]"

subsection \<open>registerUser\<close>

definition registerUser :: "env \<Rightarrow> req_body \<Rightarrow> response \<times> call list" where
  "registerUser e b =
    (let name = get_prop b ''name''; email = get_prop b ''email'';
         phone = get_prop b ''phone''; password = get_prop b ''password''
     in if email = JStr admin_email then
          (\<lparr>http_status = 400,
            body = error_body ''This email cannot be used for registration''\<rparr>, [])
        else
          let passphrase = generatePassphrase e in
          (case create e name email phone password passphrase of
             Inl (Error msg) \<Rightarrow>
               (\<lparr>http_status = 400,
                 body = error_body (if msg \<noteq> [] then msg else ''Failed to create account'')\<rparr>,
                [GeneratePassphrase, Create name email phone password passphrase])
           | Inr u \<Rightarrow>
               (\<lparr>http_status = 201,
                 body = JObj [(''status'', JStr ''success''),
                              (''message'', JStr ''Account created successfully''),
                              (''data'', JObj [(''_id'', JStr (uid u)),
                                               (''name'', JStr (uname u)),
                                               (''email'', JStr (uemail u)),
                                               (''phone'', JStr (uphone u)),
                                               (''passphrase'', JStr passphrase),
                                               (''token'', JStr (generateToken e (uid u)))])]\<rparr>,
                [GeneratePassphrase, Create name email phone password passphrase,
                 GenerateToken (uid u)])))"

subsection \<open>loginUser\<close>

definition admin_success :: response where
  "admin_success =
    \<lparr>http_status = 200,
     body = JObj [(''status'', JStr ''success''),
                  (''data'', JObj [(''_id'', JStr ''admin''),
                                   (''name'', JStr ''Admin''),
                                   (''email'', JStr ''admin@zamanix.com''),
                                   (''token'', JStr ''admin_token'')])]\<rparr>"

definition login_success :: "env \<Rightarrow> user \<Rightarrow> response" where
  "login_success e u =
    \<lparr>http_status = 200,
     body = JObj [(''status'', JStr ''success''),
                  (''data'', JObj [(''_id'', JStr (uid u)),
                                   (''name'', JStr (uname u)),
                                   (''email'', JStr (uemail u)),
                                   (''phone'', JStr (uphone u)),
                                   (''token'', JStr (generateToken e (uid u)))])]\<rparr>"

definition invalid_credentials :: response where
  "invalid_credentials = \<lparr>http_status = 401, body = error_body ''Invalid email or password''\<rparr>"

definition invalid_passphrase :: response where
  "invalid_passphrase = \<lparr>http_status = 401, body = error_body ''Invalid passphrase''\<rparr>"

definition server_error :: response where
  "server_error = \<lparr>http_status = 500, body = error_body ''Server error occurred''\<rparr>"

definition loginUser :: "env \<Rightarrow> req_body \<Rightarrow> response \<times> call list" where
  "loginUser e b =
    (let email = get_prop b ''email''; password = get_prop b ''password'';
         passphrase = get_prop b ''passphrase''
     in if email = JStr admin_email \<and> password = JStr admin_password then (admin_success, [])
        else
          (case findOne e email of
             Inl err \<Rightarrow> (server_error, [FindOne email])
           | Inr None \<Rightarrow> (invalid_credentials, [FindOne email])
           | Inr (Some u) \<Rightarrow>
               (case matchPassword e u password of
                  Inl err \<Rightarrow> (server_error, [FindOne email, MatchPassword u password])
                | Inr isPasswordValid \<Rightarrow>
                    if \<not> isPasswordValid then
                      (invalid_credentials, [FindOne email, MatchPassword u password])
                    else if truthy passphrase then
                      (case verifyPassphrase e u passphrase of
                         Inl err \<Rightarrow>
                           (server_error,
                            [FindOne email, MatchPassword u password,
                             VerifyPassphrase u passphrase])
                       | Inr ok \<Rightarrow>
                           if \<not> ok then
                             (invalid_passphrase,
                              [FindOne email, MatchPassword u password,
                               VerifyPassphrase u passphrase])
                           else
                             (login_success e u,
                              [FindOne email, MatchPassword u password,
                               VerifyPassphrase u passphrase, GenerateToken (uid u)]))
                    else
                      (login_success e u,
                       [FindOne email, MatchPassword u password, GenerateToken (uid u)]))))"

text \<open>Reading a response: the keys of its \<^verbatim>\<open>data\<close> object, and a property of it.\<close>

fun obj_get :: "jsval \<Rightarrow> string \<Rightarrow> jsval" where
  "obj_get (JObj kvs) k = (case map_of kvs k of None \<Rightarrow> JUndefined | Some v \<Rightarrow> v)"
| "obj_get v k = JUndefined"

fun obj_keys :: "jsval \<Rightarrow> string list" where
  "obj_keys (JObj kvs) = map fst kvs"
| "obj_keys v = []"

definition data_keys :: "response \<Rightarrow> string list" where
  "data_keys r = obj_keys (obj_get (body r) ''data'')"

definition data_get :: "response \<Rightarrow> string \<Rightarrow> jsval" where
  "data_get r k = obj_get (obj_get (body r) ''data'') k"

definition is_verify :: "call \<Rightarrow> bool" where
  "is_verify c = (case c of VerifyPassphrase u p \<Rightarrow> True | _ \<Rightarrow> False)"

subsection \<open>Two concrete stores\<close>

definition ann :: user where
  "ann = \<lparr>uid = ''u1'', uname = ''Ann'', uemail = ''ann@example.com'', uphone = ''555''\<rparr>"

text \<open>A store holding one user, with password \<open>secret\<close> and passphrase \<open>alpha beta\<close>.\<close>

definition store1 :: env where
  "store1 =
    \<lparr>findOne = (\<lambda>em. if em = JStr ''ann@example.com'' then Inr (Some ann) else Inr None),
     matchPassword = (\<lambda>u p. Inr (p = JStr ''secret'')),
     verifyPassphrase = (\<lambda>u p. Inr (p = JStr ''alpha beta'')),
     create = (\<lambda>n em ph pw pp. Inl (Error ''E11000 duplicate key'')),
     generateToken = (\<lambda>i. ''jwt.'' @ i),
     generatePassphrase = ''alpha beta''\<rparr>"

text \<open>A store seeded with a record under the administrative address, password \<open>hunter2\<close>.\<close>

definition root_user :: user where
  "root_user = \<lparr>uid = ''u0'', uname = ''Root'', uemail = ''admin@zamanix.com'', uphone = ''000''\<rparr>"

definition seeded_store :: env where
  "seeded_store =
    \<lparr>findOne = (\<lambda>em. if em = JStr ''admin@zamanix.com'' then Inr (Some root_user) else Inr None),
     matchPassword = (\<lambda>u p. Inr (p = JStr ''hunter2'')),
     verifyPassphrase = (\<lambda>u p. Inr (p = JStr ''gamma delta'')),
     create = (\<lambda>n em ph pw pp. Inl (Error ''E11000 duplicate key'')),
     generateToken = (\<lambda>i. ''jwt.'' @ i),
     generatePassphrase = ''gamma delta''\<rparr>"

definition login_req :: "string \<Rightarrow> string \<Rightarrow> req_body" where
  "login_req em pw = [''email'' \<mapsto> JStr em, ''password'' \<mapsto> JStr pw]"

definition login_req3 :: "string \<Rightarrow> string \<Rightarrow> string \<Rightarrow> req_body" where
  "login_req3 em pw pp = [''email'' \<mapsto> JStr em, ''password'' \<mapsto> JStr pw, ''passphrase'' \<mapsto> JStr pp]"

section \<open>index.js: the database connection bootstrap\<close>

text \<open>
  What the process does while it starts, in order. \<open>Connect ok\<close> is one
  \<^verbatim>\<open>mongoose.connect\<close> attempt and whether it resolved; \<open>Sleep d\<close> is the
  \<^verbatim>\<open>setTimeout\<close> of \<open>d\<close> milliseconds awaited before the next attempt. The delays
  are reals: every product \<open>5000 * 1.5 ^ i\<close> that the start-up reaches is a multiple of
  1/2 below \<open>2 ^ 53\<close> and so is computed exactly by the JavaScript number type.
\<close>

datatype boot_event =
    Middleware
  | HealthRoute
  | Connect bool
  | Sleep real
  | ConfigureCloudinary
  | UseRouter string
  | ServeStatic
  | ErrorHandling
  | Listen
  | Exit nat

text \<open>
  \<^verbatim>\<open>connectDB(retries, delay)\<close>. The outcome of the attempts is a parameter: \<open>conn k\<close>
  says whether the \<open>k\<close>-th attempt of the process succeeds. The case \<open>Suc r\<close> is the
  branch \<^verbatim>\<open>retries > 0\<close>. The function returns the source's boolean and the events.
\<close>

fun connectDB :: "(nat \<Rightarrow> bool) \<Rightarrow> nat \<Rightarrow> nat \<Rightarrow> real \<Rightarrow> bool \<times> boot_event list" where
  "connectDB conn k 0 delay =
     (if conn k then (True, [Connect True]) else (False, [Connect False]))"
| "connectDB conn k (Suc r) delay =
     (if conn k then (True, [Connect True])
      else (case connectDB conn (Suc k) r (delay * 1.5) of
              (res, es) \<Rightarrow> (res, Connect False # Sleep delay # es)))"

text \<open>
  \<^verbatim>\<open>initializeApp\<close>, called with the defaults \<^verbatim>\<open>retries = 5, delay = 5000\<close>;
  \<open>production\<close> is \<^verbatim>\<open>process.env.NODE_ENV === 'production'\<close>.
\<close>

definition initializeApp :: "bool \<Rightarrow> (nat \<Rightarrow> bool) \<Rightarrow> boot_event list" where
  "initializeApp production conn =
    (case connectDB conn 0 5 5000 of
       (dbConnected, es) \<Rightarrow>
         if \<not> dbConnected then es @ [Exit 1]
         else es @ [ConfigureCloudinary, UseRouter ''/api/blogs'', UseRouter ''/api/users'']
                 @ (if production then [ServeStatic] else [])
                 @ [ErrorHandling, Listen])"

text \<open>The module as a whole: the middleware and the health route come before the call.\<close>

definition server_start :: "bool \<Rightarrow> (nat \<Rightarrow> bool) \<Rightarrow> boot_event list" where
  "server_start production conn = [Middleware, HealthRoute] @ initializeApp production conn"

fun sleeps :: "boot_event list \<Rightarrow> real list" where
  "sleeps [] = []"
| "sleeps (Sleep d # es) = d # sleeps es"
| "sleeps (e # es) = sleeps es"

fun attempts :: "boot_event list \<Rightarrow> nat" where
  "attempts [] = 0"
| "attempts (Connect ok # es) = Suc (attempts es)"
| "attempts (e # es) = attempts es"

fun serving :: "boot_event \<Rightarrow> bool" where
  "serving (UseRouter r) = True"
| "serving Listen = True"
| "serving e = False"

text \<open>The events of an attempt that did not connect: the failed attempt and the wait.\<close>

fun failed_attempt :: "boot_event \<Rightarrow> bool" where
  "failed_attempt (Connect ok) = (\<not> ok)"
| "failed_attempt (Sleep d) = True"
| "failed_attempt e = False"

text \<open>The events before the first successful connection attempt.\<close>

definition before_connected :: "boot_event list \<Rightarrow> boot_event list" where
  "before_connected es = takeWhile (\<lambda>e. e \<noteq> Connect True) es"

definition never_connects :: "nat \<Rightarrow> bool" where
  "never_connects k = False"

definition connects_at :: "nat \<Rightarrow> nat \<Rightarrow> bool" where
  "connects_at n k = (n \<le> k)"

section \<open>LoginForm.tsx\<close>

record formData =
  name :: string
  email :: string
  password :: string
  phone :: string
  passphrase :: string

text \<open>
  The component's \<^verbatim>\<open>useState\<close> cells. \<open>timers\<close> holds the delays of the pending
  \<^verbatim>\<open>setTimeout(() => onSuccess(), ms)\<close> calls.
\<close>

record state =
  isSignup :: bool
  showPassphrasePopup :: bool
  formData :: formData
  generatedPassphrase :: string
  error :: string
  success :: string
  loading :: bool
  tempLoginData :: "(string \<times> string) option"
  timers :: "nat list"

definition empty_form :: formData where
  "empty_form = \<lparr>name = [], email = [], password = [], phone = [], passphrase = []\<rparr>"

definition initial :: state where
  "initial =
    \<lparr>isSignup = False, showPassphrasePopup = False, formData = empty_form,
     generatedPassphrase = [], error = [], success = [], loading = False,
     tempLoginData = None, timers = []\<rparr>"

text \<open>
  \<^verbatim>\<open>login\<close> and \<^verbatim>\<open>signup\<close> come from the user context and are parameters: an awaited
  call resolves to a boolean or rejects. \<^verbatim>\<open>login\<close> takes the passphrase as an optional
  third argument.
\<close>

datatype 'a promise = Resolved 'a | Rejected

record api =
  signup :: "string \<Rightarrow> string \<Rightarrow> string \<Rightarrow> string \<Rightarrow> bool promise"
  login :: "string \<Rightarrow> string \<Rightarrow> string option \<Rightarrow> bool promise"

datatype api_call =
    Signup string string string string
  | Login string string "string option"

text \<open>
  \<^verbatim>\<open>handleSubmit\<close>, from the state of the render whose closure runs it to the state once
  the handler has finished, with the calls it made. The signup arguments are in the order
  name, email, password, phone.
\<close>

definition handleSubmit :: "api \<Rightarrow> state \<Rightarrow> state \<times> api_call list" where
  "handleSubmit a s =
    (let f = formData s;
         s0 = s\<lparr>error := [], success := [], loading := True\<rparr>
     in if isSignup s then
          if name f = [] \<or> email f = [] \<or> password f = [] \<or> phone f = [] then
            (s0\<lparr>error := ''All fields are required'', loading := False\<rparr>, [])
          else
            (case signup a (name f) (email f) (password f) (phone f) of
               Resolved ok \<Rightarrow>
                 if ok then
                   (s0\<lparr>success := ''Account created successfully! Please save your passphrase:'',
                       generatedPassphrase := passphrase f,
                       timers := timers s @ [5000],
                       loading := False\<rparr>,
                    [Signup (name f) (email f) (password f) (phone f)])
                 else
                   (s0\<lparr>error := ''Failed to create account'', loading := False\<rparr>,
                    [Signup (name f) (email f) (password f) (phone f)])
             | Rejected \<Rightarrow>
                 (s0\<lparr>error := ''An unexpected error occurred'', loading := False\<rparr>,
                  [Signup (name f) (email f) (password f) (phone f)]))
        else
          if email f = [] \<or> password f = [] then
            (s0\<lparr>error := ''Email and password are required'', loading := False\<rparr>, [])
          else if email f = ''admin@zamanix.com'' then
            (case login a (email f) (password f) None of
               Resolved ok \<Rightarrow>
                 if ok then
                   (s0\<lparr>success := ''Login successful!'',
                       timers := timers s @ [1500],
                       loading := False\<rparr>,
                    [Login (email f) (password f) None])
                 else
                   (s0\<lparr>error := ''Invalid credentials'', loading := False\<rparr>,
                    [Login (email f) (password f) None])
             | Rejected \<Rightarrow>
                 (s0\<lparr>error := ''An unexpected error occurred'', loading := False\<rparr>,
                  [Login (email f) (password f) None]))
          else
            (s0\<lparr>tempLoginData := Some (email f, password f),
                showPassphrasePopup := True,
                loading := False\<rparr>, []))"

definition handlePassphraseSubmit :: "api \<Rightarrow> state \<Rightarrow> state \<times> api_call list" where
  "handlePassphraseSubmit a s =
    (case tempLoginData s of
       None \<Rightarrow> (s, [])
     | Some (em, pw) \<Rightarrow>
         (let pp = passphrase (formData s);
              s0 = s\<lparr>loading := True, error := []\<rparr>
          in case login a em pw (Some pp) of
               Resolved ok \<Rightarrow>
                 if ok then
                   (s0\<lparr>success := ''Login successful!'',
                       timers := timers s @ [1500],
                       loading := False\<rparr>,
                    [Login em pw (Some pp)])
                 else
                   (s0\<lparr>error := ''Invalid passphrase'', loading := False\<rparr>,
                    [Login em pw (Some pp)])
             | Rejected \<Rightarrow>
                 (s0\<lparr>error := ''An unexpected error occurred'', loading := False\<rparr>,
                  [Login em pw (Some pp)])))"

datatype input = NameInput | PhoneInput | EmailInput | PasswordInput | PassphraseInput

fun set_field :: "input \<Rightarrow> string \<Rightarrow> formData \<Rightarrow> formData" where
  "set_field NameInput v f = f\<lparr>name := v\<rparr>"
| "set_field PhoneInput v f = f\<lparr>phone := v\<rparr>"
| "set_field EmailInput v f = f\<lparr>email := v\<rparr>"
| "set_field PasswordInput v f = f\<lparr>password := v\<rparr>"
| "set_field PassphraseInput v f = f\<lparr>passphrase := v\<rparr>"

definition handleInputChange :: "input \<Rightarrow> string \<Rightarrow> state \<Rightarrow> state" where
  "handleInputChange i v s = s\<lparr>formData := set_field i v (formData s), error := [], success := []\<rparr>"

text \<open>The close button of the passphrase popup.\<close>

definition closePopup :: "state \<Rightarrow> state" where
  "closePopup s =
    s\<lparr>showPassphrasePopup := False, tempLoginData := None,
      formData := (formData s)\<lparr>passphrase := []\<rparr>\<rparr>"

text \<open>The button that switches between login and signup.\<close>

definition toggleSignup :: "state \<Rightarrow> state" where
  "toggleSignup s =
    s\<lparr>isSignup := \<not> isSignup s, error := [], success := [],
      generatedPassphrase := [], formData := empty_form\<rparr>"

text \<open>
  The user's actions, and which of them the rendered view offers: the popup shows the
  passphrase input, its form and its close button; the main form shows the email and
  password inputs, the name and phone inputs in signup mode, and the switch button.
\<close>

datatype event =
    Submit
  | PassphraseSubmit
  | InputChange input string
  | ClosePopup
  | ToggleSignup

fun rendered :: "state \<Rightarrow> event \<Rightarrow> bool" where
  "rendered s Submit = (\<not> showPassphrasePopup s)"
| "rendered s PassphraseSubmit = showPassphrasePopup s"
| "rendered s (InputChange PassphraseInput v) = showPassphrasePopup s"
| "rendered s (InputChange EmailInput v) = (\<not> showPassphrasePopup s)"
| "rendered s (InputChange PasswordInput v) = (\<not> showPassphrasePopup s)"
| "rendered s (InputChange NameInput v) = (\<not> showPassphrasePopup s \<and> isSignup s)"
| "rendered s (InputChange PhoneInput v) = (\<not> showPassphrasePopup s \<and> isSignup s)"
| "rendered s ClosePopup = showPassphrasePopup s"
| "rendered s ToggleSignup = (\<not> showPassphrasePopup s)"

fun handle :: "api \<Rightarrow> event \<Rightarrow> state \<Rightarrow> state" where
  "handle a Submit s = fst (handleSubmit a s)"
| "handle a PassphraseSubmit s = fst (handlePassphraseSubmit a s)"
| "handle a (InputChange i v) s = handleInputChange i v s"
| "handle a ClosePopup s = closePopup s"
| "handle a ToggleSignup s = toggleSignup s"

definition step :: "api \<Rightarrow> state \<Rightarrow> event \<Rightarrow> state" where
  "step a s ev = (if rendered s ev then handle a ev s else s)"

definition run :: "api \<Rightarrow> event list \<Rightarrow> state" where
  "run a evs = foldl (step a) initial evs"

text \<open>The passphrase box inside the success message of the main form.\<close>

definition shown_passphrase :: "state \<Rightarrow> string option" where
  "shown_passphrase s =
    (if \<not> showPassphrasePopup s \<and> success s \<noteq> [] \<and> generatedPassphrase s \<noteq> []
     then Some (generatedPassphrase s) else None)"

text \<open>
  The states that the specification names for the client flow, read off the component once
  a handler has finished: a success or error message is \<open>Succeeded\<close> or \<open>Failed\<close>, the
  popup without a message is \<open>AwaitingPassphrase\<close>. The two submitting states are the
  renders with \<open>loading\<close> set while a handler awaits its call; every handler ends with
  \<open>loading\<close> cleared.
\<close>

datatype phase = Idle | AwaitingPassphrase | Succeeded | Failed

definition phase_of :: "state \<Rightarrow> phase" where
  "phase_of s =
    (if success s \<noteq> [] then Succeeded
     else if error s \<noteq> [] then Failed
     else if showPassphrasePopup s then AwaitingPassphrase
     else Idle)"

text \<open>
  Two user contexts: one whose calls all resolve to true, and one that accepts every signup
  and refuses every login.
\<close>

definition accepting :: api where
  "accepting = \<lparr>signup = (\<lambda>n em pw ph. Resolved True), login = (\<lambda>em pw pp. Resolved True)\<rparr>"

definition signup_only :: api where
  "signup_only = \<lparr>signup = (\<lambda>n em pw ph. Resolved True), login = (\<lambda>em pw pp. Resolved False)\<rparr>"

text \<open>
  A session: a login attempt that reaches the popup, a passphrase typed and refused, the
  popup closed, the switch to signup, and the four signup fields filled in.
\<close>

definition signup_session :: "event list" where
  "signup_session =
    [InputChange EmailInput ''ann@example.com'', InputChange PasswordInput ''guess'', Submit,
     InputChange PassphraseInput ''alpha gamma'', PassphraseSubmit, ClosePopup, ToggleSignup,
     InputChange NameInput ''Ann'', InputChange EmailInput ''ann@example.com'',
     InputChange PasswordInput ''secret'', InputChange PhoneInput ''555'']"

text \<open>The login form with the two fields filled in.\<close>

definition login_form :: "string \<Rightarrow> string \<Rightarrow> state" where
  "login_form em pw = initial\<lparr>formData := empty_form\<lparr>email := em, password := pw\<rparr>\<rparr>"

section \<open>Properties of the user controller\<close>

lemmas response_defs = admin_success_def login_success_def invalid_credentials_def
  invalid_passphrase_def server_error_def error_body_def

lemmas login_defs = loginUser_def get_prop_def admin_email_def admin_password_def Let_def

lemmas fixture_defs = store1_def ann_def login_req_def

text \<open>
  C1, as stated, fails on a store that holds a record under the administrative address:
  with a password other than \<open>zamanix_admin\<close> the request reaches the ordinary lookup, and
  when the record's password check accepts it, the login succeeds as that user.
\<close>

theorem login_admin_other_password_counterexample:
  "get_prop (login_req ''admin@zamanix.com'' ''hunter2'') ''email'' = JStr admin_email
   \<and> get_prop (login_req ''admin@zamanix.com'' ''hunter2'') ''password'' \<noteq> JStr admin_password
   \<and> fst (loginUser seeded_store (login_req ''admin@zamanix.com'' ''hunter2''))
       = login_success seeded_store root_user
   \<and> http_status (fst (loginUser seeded_store (login_req ''admin@zamanix.com'' ''hunter2''))) = 200"
  by (simp add: login_defs login_req_def seeded_store_def response_defs)

text \<open>
  C1 (amended). When the request email is \<open>admin@zamanix.com\<close> and the password is
  \<open>zamanix_admin\<close>, \<open>loginUser\<close> answers with the success response whose identity
  \<open>_id\<close> is \<open>admin\<close> and whose token is \<open>admin_token\<close>, and makes no call on the
  credential store (the call list is empty). With the same email and any other password
  the sentinel branch is not taken: the first call is the store lookup of that email, and
  the login is rejected with the InvalidCredentials response when the store holds no record
  under that email or when the record's password check fails.
\<close>

theorem login_admin_sentinel:
  assumes "get_prop b ''email'' = JStr admin_email"
  shows "(get_prop b ''password'' = JStr admin_password \<longrightarrow>
            loginUser e b = (admin_success, []))
       \<and> http_status admin_success = 200
       \<and> obj_get (body admin_success) ''status'' = JStr ''success''
       \<and> data_get admin_success ''_id'' = JStr ''admin''
       \<and> data_get admin_success ''token'' = JStr ''admin_token''
       \<and> (get_prop b ''password'' \<noteq> JStr admin_password \<longrightarrow>
            (\<exists>cs. snd (loginUser e b) = FindOne (JStr admin_email) # cs)
          \<and> (findOne e (JStr admin_email) = Inr None \<longrightarrow>
               loginUser e b = (invalid_credentials, [FindOne (JStr admin_email)]))
          \<and> (\<forall>u. findOne e (JStr admin_email) = Inr (Some u) \<longrightarrow>
                   matchPassword e u (get_prop b ''password'') = Inr False \<longrightarrow>
               loginUser e b =
                 (invalid_credentials,
                  [FindOne (JStr admin_email), MatchPassword u (get_prop b ''password'')])))"
  using assms
  by (auto simp: loginUser_def Let_def data_get_def response_defs split: sum.splits option.splits)

theorem login_admin_sentinel_witness:
  "loginUser store1 (login_req ''admin@zamanix.com'' ''zamanix_admin'') = (admin_success, [])
   \<and> loginUser store1 (login_req ''admin@zamanix.com'' ''letmein'')
       = (invalid_credentials, [FindOne (JStr ''admin@zamanix.com'')])
   \<and> loginUser seeded_store (login_req ''admin@zamanix.com'' ''letmein'')
       = (invalid_credentials,
          [FindOne (JStr ''admin@zamanix.com''), MatchPassword root_user (JStr ''letmein'')])"
proof -
  have e: "\<And>pw. get_prop (login_req ''admin@zamanix.com'' pw) ''email'' = JStr admin_email"
    by (simp add: get_prop_def login_req_def admin_email_def)
  have p: "\<And>pw. get_prop (login_req ''admin@zamanix.com'' pw) ''password'' = JStr pw"
    by (simp add: get_prop_def login_req_def)
  have f1: "findOne store1 (JStr admin_email) = Inr None"
    by (simp add: store1_def admin_email_def)
  have f2: "findOne seeded_store (JStr admin_email) = Inr (Some root_user)"
    by (simp add: seeded_store_def admin_email_def)
  have m2: "matchPassword seeded_store root_user (JStr ''letmein'') = Inr False"
    by (simp add: seeded_store_def)
  show ?thesis
    using login_admin_sentinel [OF e, of "''zamanix_admin''" store1]
      login_admin_sentinel [OF e, of "''letmein''" store1]
      login_admin_sentinel [OF e, of "''letmein''" seeded_store]
      p f1 f2 m2
    by (simp add: admin_password_def admin_email_def)
qed

text \<open>
  C2. A registration request whose email is \<open>admin@zamanix.com\<close> is answered with HTTP 400,
  status \<open>error\<close> and the reserved-identity message, whatever the other fields and the
  store are; the call list is empty, so no passphrase is generated and no user record is
  created.
\<close>

theorem register_admin_reserved:
  assumes "get_prop b ''email'' = JStr admin_email"
  shows "registerUser e b =
           (\<lparr>http_status = 400,
             body = JObj [(''status'', JStr ''error''),
                          (''message'', JStr ''This email cannot be used for registration'')]\<rparr>,
            [])"
  using assms by (simp add: registerUser_def Let_def error_body_def)

theorem register_admin_reserved_witness:
  "get_prop [''name'' \<mapsto> JStr ''Eve'', ''email'' \<mapsto> JStr ''admin@zamanix.com'',
             ''phone'' \<mapsto> JNum 7, ''password'' \<mapsto> JStr ''pw''] ''email'' = JStr admin_email
   \<and> registerUser store1
        [''name'' \<mapsto> JStr ''Eve'', ''email'' \<mapsto> JStr ''admin@zamanix.com'',
         ''phone'' \<mapsto> JNum 7, ''password'' \<mapsto> JStr ''pw'']
      = (\<lparr>http_status = 400,
          body = JObj [(''status'', JStr ''error''),
                       (''message'', JStr ''This email cannot be used for registration'')]\<rparr>,
         [])"
proof -
  have h: "get_prop [''name'' \<mapsto> JStr ''Eve'', ''email'' \<mapsto> JStr ''admin@zamanix.com'',
             ''phone'' \<mapsto> JNum 7, ''password'' \<mapsto> JStr ''pw''] ''email'' = JStr admin_email"
    by (simp add: get_prop_def admin_email_def)
  show ?thesis using h register_admin_reserved [OF h, of store1] by simp
qed

text \<open>
  C3. For a registered user under a non-administrative email, a login request with the
  correct password and no passphrase property succeeds: the response is the success
  response carrying a token, and the calls are the lookup, the password check and the
  token issue only; passphrase verification is not called.
\<close>

theorem login_without_passphrase:
  assumes "get_prop b ''email'' \<noteq> JStr admin_email"
    and "findOne e (get_prop b ''email'') = Inr (Some u)"
    and "matchPassword e u (get_prop b ''password'') = Inr True"
    and "get_prop b ''passphrase'' = JUndefined"
  shows "loginUser e b =
           (login_success e u,
            [FindOne (get_prop b ''email''), MatchPassword u (get_prop b ''password''),
             GenerateToken (uid u)])
       \<and> http_status (login_success e u) = 200
       \<and> obj_get (body (login_success e u)) ''status'' = JStr ''success''
       \<and> data_get (login_success e u) ''token'' = JStr (generateToken e (uid u))
       \<and> \<not> list_ex is_verify (snd (loginUser e b))"
  using assms
  by (simp add: loginUser_def Let_def data_get_def is_verify_def login_success_def)

theorem login_without_passphrase_witness:
  "get_prop (login_req ''ann@example.com'' ''secret'') ''email'' \<noteq> JStr admin_email
   \<and> findOne store1 (get_prop (login_req ''ann@example.com'' ''secret'') ''email'') = Inr (Some ann)
   \<and> matchPassword store1 ann (get_prop (login_req ''ann@example.com'' ''secret'') ''password'') = Inr True
   \<and> get_prop (login_req ''ann@example.com'' ''secret'') ''passphrase'' = JUndefined
   \<and> loginUser store1 (login_req ''ann@example.com'' ''secret'')
      = (login_success store1 ann,
         [FindOne (JStr ''ann@example.com''), MatchPassword ann (JStr ''secret''),
          GenerateToken ''u1''])
   \<and> data_get (login_success store1 ann) ''token'' = JStr ''jwt.u1''"
proof -
  let ?b = "login_req ''ann@example.com'' ''secret''"
  have h1: "get_prop ?b ''email'' \<noteq> JStr admin_email"
    by (simp add: get_prop_def login_req_def admin_email_def)
  have h2: "findOne store1 (get_prop ?b ''email'') = Inr (Some ann)"
    by (simp add: get_prop_def login_req_def store1_def)
  have h3: "matchPassword store1 ann (get_prop ?b ''password'') = Inr True"
    by (simp add: get_prop_def login_req_def store1_def)
  have h4: "get_prop ?b ''passphrase'' = JUndefined"
    by (simp add: get_prop_def login_req_def)
  show ?thesis
    using h1 h2 h3 h4 login_without_passphrase [OF h1 h2 h3 h4]
    by (simp add: get_prop_def login_req_def store1_def ann_def)
qed

text \<open>
  C4, as stated, fails for a supplied passphrase that is falsy in JavaScript: the empty
  string would not pass the stored-passphrase verification, but the guard
  \<^verbatim>\<open>passphrase && ...\<close> never calls it, and the login succeeds.
\<close>

theorem login_empty_passphrase_counterexample:
  "findOne store1 (JStr ''ann@example.com'') = Inr (Some ann)
   \<and> matchPassword store1 ann (JStr ''secret'') = Inr True
   \<and> get_prop (login_req3 ''ann@example.com'' ''secret'' []) ''passphrase'' = JStr []
   \<and> verifyPassphrase store1 ann (JStr []) = Inr False
   \<and> fst (loginUser store1 (login_req3 ''ann@example.com'' ''secret'' [])) = login_success store1 ann
   \<and> fst (loginUser store1 (login_req3 ''ann@example.com'' ''secret'' [])) \<noteq> invalid_passphrase"
  by (simp add: login_defs fixture_defs login_req3_def response_defs)

text \<open>
  C4 (amended). For a registered user under a non-administrative email, a login request
  with the correct password and a supplied passphrase that is truthy (not the empty string,
  null, false or 0) and fails the stored-passphrase verification is answered with the
  InvalidPassphrase response, HTTP 401 with message \<open>Invalid passphrase\<close>, which differs
  from the InvalidCredentials response, although the password was correct.
\<close>

theorem login_wrong_passphrase:
  assumes "get_prop b ''email'' \<noteq> JStr admin_email"
    and "findOne e (get_prop b ''email'') = Inr (Some u)"
    and "matchPassword e u (get_prop b ''password'') = Inr True"
    and "truthy (get_prop b ''passphrase'')"
    and "verifyPassphrase e u (get_prop b ''passphrase'') = Inr False"
  shows "loginUser e b =
           (invalid_passphrase,
            [FindOne (get_prop b ''email''), MatchPassword u (get_prop b ''password''),
             VerifyPassphrase u (get_prop b ''passphrase'')])
       \<and> http_status invalid_passphrase = 401
       \<and> body invalid_passphrase =
           JObj [(''status'', JStr ''error''), (''message'', JStr ''Invalid passphrase'')]
       \<and> invalid_passphrase \<noteq> invalid_credentials"
  using assms
  by (simp add: loginUser_def Let_def response_defs)

theorem login_wrong_passphrase_witness:
  "get_prop (login_req3 ''ann@example.com'' ''secret'' ''alpha gamma'') ''email'' \<noteq> JStr admin_email
   \<and> findOne store1 (get_prop (login_req3 ''ann@example.com'' ''secret'' ''alpha gamma'') ''email'')
       = Inr (Some ann)
   \<and> matchPassword store1 ann
        (get_prop (login_req3 ''ann@example.com'' ''secret'' ''alpha gamma'') ''password'') = Inr True
   \<and> truthy (get_prop (login_req3 ''ann@example.com'' ''secret'' ''alpha gamma'') ''passphrase'')
   \<and> verifyPassphrase store1 ann
        (get_prop (login_req3 ''ann@example.com'' ''secret'' ''alpha gamma'') ''passphrase'') = Inr False
   \<and> loginUser store1 (login_req3 ''ann@example.com'' ''secret'' ''alpha gamma'')
       = (invalid_passphrase,
          [FindOne (JStr ''ann@example.com''), MatchPassword ann (JStr ''secret''),
           VerifyPassphrase ann (JStr ''alpha gamma'')])"
proof -
  let ?b = "login_req3 ''ann@example.com'' ''secret'' ''alpha gamma''"
  have h1: "get_prop ?b ''email'' \<noteq> JStr admin_email"
    by (simp add: get_prop_def login_req3_def admin_email_def)
  have h2: "findOne store1 (get_prop ?b ''email'') = Inr (Some ann)"
    by (simp add: get_prop_def login_req3_def store1_def)
  have h3: "matchPassword store1 ann (get_prop ?b ''password'') = Inr True"
    by (simp add: get_prop_def login_req3_def store1_def)
  have h4: "truthy (get_prop ?b ''passphrase'')"
    by (simp add: get_prop_def login_req3_def)
  have h5: "verifyPassphrase store1 ann (get_prop ?b ''passphrase'') = Inr False"
    by (simp add: get_prop_def login_req3_def store1_def)
  show ?thesis
    using h1 h2 h3 h4 h5 login_wrong_passphrase [OF h1 h2 h3 h4 h5]
    by (simp add: get_prop_def login_req3_def)
qed

text \<open>
  C5, as stated, fails at the administrative sentinel pair: the address
  \<open>admin@zamanix.com\<close> is not in the store, yet with the password \<open>zamanix_admin\<close> the
  run is answered with the sentinel success before any lookup, while a stored email with a
  wrong password is answered with HTTP 401.
\<close>

theorem login_sentinel_unknown_email_counterexample:
  "findOne store1 (get_prop (login_req ''admin@zamanix.com'' ''zamanix_admin'') ''email'') = Inr None
   \<and> findOne store1 (get_prop (login_req ''ann@example.com'' ''guess'') ''email'') = Inr (Some ann)
   \<and> matchPassword store1 ann (get_prop (login_req ''ann@example.com'' ''guess'') ''password'')
       = Inr False
   \<and> http_status (fst (loginUser store1 (login_req ''admin@zamanix.com'' ''zamanix_admin''))) = 200
   \<and> http_status (fst (loginUser store1 (login_req ''ann@example.com'' ''guess''))) = 401
   \<and> fst (loginUser store1 (login_req ''admin@zamanix.com'' ''zamanix_admin''))
       \<noteq> fst (loginUser store1 (login_req ''ann@example.com'' ''guess''))"
  by (simp add: login_defs fixture_defs response_defs)

text \<open>
  C5 (amended). Of two login runs, neither with the administrative sentinel pair as its
  email and password, one with an email that the store does not hold and one with a stored
  email whose password check fails, both are rejected and both responses are the same:
  HTTP 401, status \<open>error\<close>, message \<open>Invalid email or password\<close>.
\<close>

theorem login_failures_indistinguishable:
  assumes "\<not> (get_prop b1 ''email'' = JStr admin_email
              \<and> get_prop b1 ''password'' = JStr admin_password)"
    and "\<not> (get_prop b2 ''email'' = JStr admin_email
              \<and> get_prop b2 ''password'' = JStr admin_password)"
    and "findOne e1 (get_prop b1 ''email'') = Inr None"
    and "findOne e2 (get_prop b2 ''email'') = Inr (Some u)"
    and "matchPassword e2 u (get_prop b2 ''password'') = Inr False"
  shows "loginUser e1 b1 = (invalid_credentials, [FindOne (get_prop b1 ''email'')])
       \<and> loginUser e2 b2 =
           (invalid_credentials,
            [FindOne (get_prop b2 ''email''), MatchPassword u (get_prop b2 ''password'')])
       \<and> fst (loginUser e1 b1) = fst (loginUser e2 b2)
       \<and> http_status invalid_credentials = 401
       \<and> body invalid_credentials =
           JObj [(''status'', JStr ''error''), (''message'', JStr ''Invalid email or password'')]"
  using assms
  by (auto simp: loginUser_def Let_def response_defs)

theorem login_failures_indistinguishable_witness:
  "\<not> (get_prop (login_req ''bob@example.com'' ''secret'') ''email'' = JStr admin_email
       \<and> get_prop (login_req ''bob@example.com'' ''secret'') ''password'' = JStr admin_password)
   \<and> \<not> (get_prop (login_req ''ann@example.com'' ''guess'') ''email'' = JStr admin_email
       \<and> get_prop (login_req ''ann@example.com'' ''guess'') ''password'' = JStr admin_password)
   \<and> findOne store1 (get_prop (login_req ''bob@example.com'' ''secret'') ''email'') = Inr None
   \<and> findOne store1 (get_prop (login_req ''ann@example.com'' ''guess'') ''email'') = Inr (Some ann)
   \<and> matchPassword store1 ann (get_prop (login_req ''ann@example.com'' ''guess'') ''password'')
       = Inr False
   \<and> fst (loginUser store1 (login_req ''bob@example.com'' ''secret''))
       = fst (loginUser store1 (login_req ''ann@example.com'' ''guess''))
   \<and> fst (loginUser store1 (login_req ''bob@example.com'' ''secret'')) = invalid_credentials"
proof -
  let ?b1 = "login_req ''bob@example.com'' ''secret''"
  let ?b2 = "login_req ''ann@example.com'' ''guess''"
  have n1: "\<not> (get_prop ?b1 ''email'' = JStr admin_email
                \<and> get_prop ?b1 ''password'' = JStr admin_password)"
    by (simp add: get_prop_def login_req_def admin_email_def)
  have n2: "\<not> (get_prop ?b2 ''email'' = JStr admin_email
                \<and> get_prop ?b2 ''password'' = JStr admin_password)"
    by (simp add: get_prop_def login_req_def admin_email_def)
  have h1: "findOne store1 (get_prop ?b1 ''email'') = Inr None"
    by (simp add: get_prop_def login_req_def store1_def)
  have h2: "findOne store1 (get_prop ?b2 ''email'') = Inr (Some ann)"
    by (simp add: get_prop_def login_req_def store1_def)
  have h3: "matchPassword store1 ann (get_prop ?b2 ''password'') = Inr False"
    by (simp add: get_prop_def login_req_def store1_def)
  note t = login_failures_indistinguishable [OF n1 n2 h1 h2 h3]
  from t have r: "fst (loginUser store1 ?b1) = invalid_credentials"
    by simp
  show ?thesis using n1 n2 h1 h2 h3 t r by blast
qed

text \<open>
  The remaining successful path: a registered user, the correct password and a truthy
  passphrase that passes verification give the store-backed success response with HTTP 200.
\<close>

lemma login_verified_passphrase:
  assumes "\<not> (get_prop b ''email'' = JStr admin_email
              \<and> get_prop b ''password'' = JStr admin_password)"
    and "findOne e (get_prop b ''email'') = Inr (Some u)"
    and "matchPassword e u (get_prop b ''password'') = Inr True"
    and "truthy (get_prop b ''passphrase'')"
    and "verifyPassphrase e u (get_prop b ''passphrase'') = Inr True"
  shows "loginUser e b =
           (login_success e u,
            [FindOne (get_prop b ''email''), MatchPassword u (get_prop b ''password''),
             VerifyPassphrase u (get_prop b ''passphrase''), GenerateToken (uid u)])
       \<and> http_status (login_success e u) = 200"
  using assms
  by (auto simp: loginUser_def Let_def login_success_def)

text \<open>
  C6, as stated, fails at the administrative sentinel login: its response is a success with
  HTTP 200 whose data object has the keys \<open>_id\<close>, \<open>name\<close>, \<open>email\<close>, \<open>token\<close> and no
  \<open>phone\<close>.
\<close>

theorem admin_login_no_phone_counterexample:
  "http_status (fst (loginUser store1 (login_req ''admin@zamanix.com'' ''zamanix_admin''))) = 200
   \<and> data_keys (fst (loginUser store1 (login_req ''admin@zamanix.com'' ''zamanix_admin'')))
       = [''_id'', ''name'', ''email'', ''token'']
   \<and> ''phone'' \<notin> set (data_keys (fst (loginUser store1 (login_req ''admin@zamanix.com'' ''zamanix_admin''))))"
  by (simp add: login_defs fixture_defs response_defs data_keys_def)

text \<open>
  C6 (amended). Every successful login returns HTTP 200 with a body of the two keys
  \<open>status\<close> (the string \<open>success\<close>) and \<open>data\<close>. The data object of a login answered
  from the store has exactly the keys \<open>_id\<close>, \<open>name\<close>, \<open>email\<close>, \<open>phone\<close>, \<open>token\<close>;
  the data object of the administrative sentinel login has exactly the keys \<open>_id\<close>,
  \<open>name\<close>, \<open>email\<close>, \<open>token\<close>. Every one of these properties holds a string.
\<close>

theorem login_success_shape:
  assumes "http_status (fst (loginUser e b)) = 200"
  shows "obj_keys (body (fst (loginUser e b))) = [''status'', ''data'']
       \<and> obj_get (body (fst (loginUser e b))) ''status'' = JStr ''success''
       \<and> data_keys (fst (loginUser e b)) =
           (if get_prop b ''email'' = JStr admin_email \<and> get_prop b ''password'' = JStr admin_password
            then [''_id'', ''name'', ''email'', ''token'']
            else [''_id'', ''name'', ''email'', ''phone'', ''token''])
       \<and> (\<forall>k \<in> set (data_keys (fst (loginUser e b))).
             \<exists>v. data_get (fst (loginUser e b)) k = JStr v)"
  using assms
  by (auto simp: loginUser_def Let_def response_defs data_keys_def data_get_def
      split: sum.splits option.splits if_splits)

theorem login_success_shape_witness:
  "http_status (fst (loginUser store1 (login_req3 ''ann@example.com'' ''secret'' ''alpha beta''))) = 200
   \<and> data_keys (fst (loginUser store1 (login_req3 ''ann@example.com'' ''secret'' ''alpha beta'')))
       = [''_id'', ''name'', ''email'', ''phone'', ''token'']
   \<and> http_status (fst (loginUser store1 (login_req ''admin@zamanix.com'' ''zamanix_admin''))) = 200
   \<and> data_keys (fst (loginUser store1 (login_req ''admin@zamanix.com'' ''zamanix_admin'')))
       = [''_id'', ''name'', ''email'', ''token'']"
proof -
  let ?b = "login_req3 ''ann@example.com'' ''secret'' ''alpha beta''"
  let ?c = "login_req ''admin@zamanix.com'' ''zamanix_admin''"
  have h: "http_status (fst (loginUser store1 ?b)) = 200"
    by (simp add: login_defs fixture_defs login_req3_def response_defs)
  have k: "http_status (fst (loginUser store1 ?c)) = 200"
    by (simp add: login_defs fixture_defs response_defs)
  have nb: "get_prop ?b ''email'' \<noteq> JStr admin_email"
    by (simp add: get_prop_def login_req3_def admin_email_def)
  have nc: "get_prop ?c ''email'' = JStr admin_email \<and> get_prop ?c ''password'' = JStr admin_password"
    by (simp add: get_prop_def login_req_def admin_email_def admin_password_def)
  show ?thesis
    using h k nb nc login_success_shape [OF h] login_success_shape [OF k]
    by simp
qed

text \<open>
  C8. A passphrase property equal to the empty string is treated exactly like a missing
  one: both requests give the same response and the same calls. For a registered user with
  the correct password and the passphrase \<open>''\<close> the login succeeds, and passphrase
  verification is not among the calls.
\<close>

theorem login_empty_passphrase_as_omitted:
  "loginUser e (b(''passphrase'' \<mapsto> JStr [])) = loginUser e (b(''passphrase'' := None))
   \<and> (findOne e (get_prop b ''email'') = Inr (Some u) \<longrightarrow>
      matchPassword e u (get_prop b ''password'') = Inr True \<longrightarrow>
        http_status (fst (loginUser e (b(''passphrase'' \<mapsto> JStr [])))) = 200
      \<and> obj_get (body (fst (loginUser e (b(''passphrase'' \<mapsto> JStr []))))) ''status'' = JStr ''success''
      \<and> \<not> list_ex is_verify (snd (loginUser e (b(''passphrase'' \<mapsto> JStr [])))))"
  by (auto simp: loginUser_def Let_def get_prop_def response_defs is_verify_def
      split: sum.splits option.splits)

theorem login_empty_passphrase_as_omitted_witness:
  "loginUser store1 ((login_req ''ann@example.com'' ''secret'')(''passphrase'' \<mapsto> JStr []))
     = (login_success store1 ann,
        [FindOne (JStr ''ann@example.com''), MatchPassword ann (JStr ''secret''),
         GenerateToken ''u1''])
   \<and> loginUser store1 ((login_req ''ann@example.com'' ''secret'')(''passphrase'' := None))
     = (login_success store1 ann,
        [FindOne (JStr ''ann@example.com''), MatchPassword ann (JStr ''secret''),
         GenerateToken ''u1''])
   \<and> \<not> list_ex is_verify
        (snd (loginUser store1 ((login_req ''ann@example.com'' ''secret'')(''passphrase'' \<mapsto> JStr []))))"
proof -
  let ?b = "login_req ''ann@example.com'' ''secret''"
  have h1: "findOne store1 (get_prop ?b ''email'') = Inr (Some ann)"
    by (simp add: get_prop_def login_req_def store1_def)
  have h2: "matchPassword store1 ann (get_prop ?b ''password'') = Inr True"
    by (simp add: get_prop_def login_req_def store1_def)
  have r: "loginUser store1 (?b(''passphrase'' := None))
     = (login_success store1 ann,
        [FindOne (JStr ''ann@example.com''), MatchPassword ann (JStr ''secret''),
         GenerateToken ''u1''])"
    by (simp add: login_defs fixture_defs)
  note t = login_empty_passphrase_as_omitted [of store1 ?b ann]
  from t have eq: "loginUser store1 (?b(''passphrase'' \<mapsto> JStr []))
      = loginUser store1 (?b(''passphrase'' := None))"
    by (rule conjunct1)
  from t h1 h2
  have nv: "\<not> list_ex is_verify (snd (loginUser store1 (?b(''passphrase'' \<mapsto> JStr []))))"
    by blast
  from eq r have a: "loginUser store1 (?b(''passphrase'' \<mapsto> JStr []))
     = (login_success store1 ann,
        [FindOne (JStr ''ann@example.com''), MatchPassword ann (JStr ''secret''),
         GenerateToken ''u1''])"
    by (rule trans)
  show ?thesis using a r nv by blast
qed

section \<open>Properties of the connection bootstrap\<close>

lemma connectDB_success: "conn k \<Longrightarrow> connectDB conn k r d = (True, [Connect True])"
  by (cases r) simp_all

lemma connectDB_retry_snd:
  "\<not> conn k \<Longrightarrow>
     snd (connectDB conn k (Suc r) d) =
       Connect False # Sleep d # snd (connectDB conn (Suc k) r (d * 1.5))"
  by (simp split: prod.splits)

lemma connectDB_retry_fst:
  "\<not> conn k \<Longrightarrow> fst (connectDB conn k (Suc r) d) = fst (connectDB conn (Suc k) r (d * 1.5))"
  by (simp split: prod.splits)

lemma connectDB_sleeps_le: "length (sleeps (snd (connectDB conn k r d))) \<le> r"
proof (induction r arbitrary: k d)
  case 0
  show ?case by simp
next
  case (Suc r)
  show ?case
  proof (cases "conn k")
    case True
    then show ?thesis by (simp add: connectDB_success del: connectDB.simps)
  next
    case False
    with Suc.IH [of "Suc k" "d * 1.5"] show ?thesis
      by (simp add: connectDB_retry_snd del: connectDB.simps)
  qed
qed

lemma connectDB_attempts:
  "attempts (snd (connectDB conn k r d)) = Suc (length (sleeps (snd (connectDB conn k r d))))"
proof (induction r arbitrary: k d)
  case 0
  show ?case by simp
next
  case (Suc r)
  show ?case
  proof (cases "conn k")
    case True
    then show ?thesis by (simp add: connectDB_success del: connectDB.simps)
  next
    case False
    with Suc.IH [of "Suc k" "d * 1.5"] show ?thesis
      by (simp add: connectDB_retry_snd del: connectDB.simps)
  qed
qed

lemma backoff_shift:
  "map (\<lambda>i. d * 1.5 ^ i) [0..<Suc n] = d # map (\<lambda>i. (d * 1.5) * 1.5 ^ i) [0..<n]"
  for d :: real
proof -
  have "[0..<Suc n] = 0 # map Suc [0..<n]"
    by (simp add: upt_conv_Cons map_Suc_upt del: upt_Suc)
  then show ?thesis
    by (simp add: o_def mult.assoc del: upt_Suc)
qed

lemma connectDB_sleeps:
  "sleeps (snd (connectDB conn k r d)) =
     map (\<lambda>i. d * 1.5 ^ i) [0..<length (sleeps (snd (connectDB conn k r d)))]"
proof (induction r arbitrary: k d)
  case 0
  show ?case by simp
next
  case (Suc r)
  show ?case
  proof (cases "conn k")
    case True
    then show ?thesis by simp
  next
    case False
    obtain res es where c: "connectDB conn (Suc k) r (d * 1.5) = (res, es)"
      by (cases "connectDB conn (Suc k) r (d * 1.5)")
    from Suc.IH [of "Suc k" "d * 1.5"] c
    have ih: "sleeps es = map (\<lambda>i. (d * 1.5) * 1.5 ^ i) [0..<length (sleeps es)]"
      by simp
    have "sleeps (snd (connectDB conn k (Suc r) d)) = d # sleeps es"
      using False c by simp
    also have "\<dots> = d # map (\<lambda>i. (d * 1.5) * 1.5 ^ i) [0..<length (sleeps es)]"
      using ih by simp
    also have "\<dots> = map (\<lambda>i. d * 1.5 ^ i) [0..<Suc (length (sleeps es))]"
      by (rule backoff_shift [symmetric])
    finally show ?thesis
      using False c by simp
  qed
qed

lemma connectDB_result: "fst (connectDB conn k r d) = (\<exists>j\<le>r. conn (k + j))"
proof (induction r arbitrary: k d)
  case 0
  show ?case by simp
next
  case (Suc r)
  show ?case
  proof (cases "conn k")
    case True
    then have "conn (k + 0)" by simp
    then have "\<exists>j\<le>Suc r. conn (k + j)" by blast
    with True show ?thesis by simp
  next
    case False
    have "(\<exists>j\<le>Suc r. conn (k + j)) = (\<exists>j\<le>r. conn (Suc k + j))"
    proof
      assume "\<exists>j\<le>Suc r. conn (k + j)"
      then obtain j where j: "j \<le> Suc r" "conn (k + j)" by blast
      with False have "j \<noteq> 0" by (cases j) auto
      then obtain i where "j = Suc i" by (cases j) auto
      with j show "\<exists>j\<le>r. conn (Suc k + j)" by auto
    next
      assume "\<exists>j\<le>r. conn (Suc k + j)"
      then obtain j where "j \<le> r" "conn (Suc k + j)" by blast
      then have "Suc j \<le> Suc r" "conn (k + Suc j)" by auto
      then show "\<exists>j\<le>Suc r. conn (k + j)" by blast
    qed
    with False Suc.IH [of "Suc k" "d * 1.5"] show ?thesis
      by (simp add: connectDB_retry_fst del: connectDB.simps)
  qed
qed

lemma connectDB_events:
  "\<exists>pre. snd (connectDB conn k r d) = pre @ [Connect (fst (connectDB conn k r d))]
        \<and> list_all failed_attempt pre"
proof (induction r arbitrary: k d)
  case 0
  show ?case by simp
next
  case (Suc r)
  show ?case
  proof (cases "conn k")
    case True
    then show ?thesis by simp
  next
    case False
    obtain res es where c: "connectDB conn (Suc k) r (d * 1.5) = (res, es)"
      by (cases "connectDB conn (Suc k) r (d * 1.5)")
    from Suc.IH [of "Suc k" "d * 1.5"] c
    obtain pre where pre: "es = pre @ [Connect res]" "list_all failed_attempt pre"
      by auto
    have "snd (connectDB conn k (Suc r) d) = (Connect False # Sleep d # pre) @ [Connect res]"
      using False c pre by simp
    moreover have "list_all failed_attempt (Connect False # Sleep d # pre)"
      using pre by simp
    moreover have "fst (connectDB conn k (Suc r) d) = res"
      using False c by simp
    ultimately show ?thesis by blast
  qed
qed

lemma failed_not_connected: "list_all failed_attempt pre \<Longrightarrow> e \<in> set pre \<Longrightarrow> e \<noteq> Connect True"
  by (auto simp: list_all_iff)

lemma failed_not_serving: "list_all failed_attempt pre \<Longrightarrow> e \<in> set pre \<Longrightarrow> \<not> serving e"
  by (cases e) (auto simp: list_all_iff)

lemma takeWhile_failed:
  "list_all failed_attempt pre \<Longrightarrow>
     takeWhile (\<lambda>e. e \<noteq> Connect True) (pre @ Connect True # rest) = pre"
  by (induction pre) auto

lemma takeWhile_failed_all:
  "list_all failed_attempt pre \<Longrightarrow>
     takeWhile (\<lambda>e. e \<noteq> Connect True) (pre @ [Connect False, Exit 1]) = pre @ [Connect False, Exit 1]"
  by (induction pre) auto

lemma sleeps_append: "sleeps (xs @ ys) = sleeps xs @ sleeps ys"
  by (induction xs rule: sleeps.induct) auto

lemma attempts_append: "attempts (xs @ ys) = attempts xs + attempts ys"
  by (induction xs rule: attempts.induct) auto

lemma initializeApp_sleeps:
  "sleeps (server_start p conn) = sleeps (snd (connectDB conn 0 5 5000))"
  by (simp add: server_start_def initializeApp_def sleeps_append split: prod.splits)

lemma initializeApp_attempts:
  "attempts (server_start p conn) = attempts (snd (connectDB conn 0 5 5000))"
  by (simp add: server_start_def initializeApp_def attempts_append split: prod.splits)

lemma server_start_connected:
  assumes "fst (connectDB conn 0 5 5000)"
  shows "\<exists>pre. list_all failed_attempt pre \<and>
           server_start p conn =
             [Middleware, HealthRoute] @ pre @ Connect True #
               [ConfigureCloudinary, UseRouter ''/api/blogs'', UseRouter ''/api/users'']
               @ (if p then [ServeStatic] else []) @ [ErrorHandling, Listen]"
proof -
  from connectDB_events [of conn 0 5 5000] assms
  obtain pre where pre: "snd (connectDB conn 0 5 5000) = pre @ [Connect True]"
      "list_all failed_attempt pre"
    by auto
  with assms show ?thesis
    by (auto simp: server_start_def initializeApp_def split: prod.splits)
qed

lemma server_start_failed:
  assumes "\<not> fst (connectDB conn 0 5 5000)"
  shows "\<exists>pre. list_all failed_attempt pre \<and>
           server_start p conn = [Middleware, HealthRoute] @ pre @ [Connect False, Exit 1]"
proof -
  from connectDB_events [of conn 0 5 5000] assms
  obtain pre where pre: "snd (connectDB conn 0 5 5000) = pre @ [Connect False]"
      "list_all failed_attempt pre"
    by auto
  with assms show ?thesis
    by (auto simp: server_start_def initializeApp_def split: prod.splits)
qed

lemma server_start_before_connected:
  "e \<in> set (before_connected (server_start p conn)) \<Longrightarrow> \<not> serving e"
proof (cases "fst (connectDB conn 0 5 5000)")
  case True
  assume e: "e \<in> set (before_connected (server_start p conn))"
  from server_start_connected [OF True, of p] obtain pre rest where
    pre: "list_all failed_attempt pre" "server_start p conn = [Middleware, HealthRoute] @ pre @ Connect True # rest"
    by blast
  then have "before_connected (server_start p conn) = [Middleware, HealthRoute] @ pre"
    by (simp add: before_connected_def takeWhile_failed)
  with e pre(1) show ?thesis
    by (auto dest: failed_not_serving)
next
  case False
  assume e: "e \<in> set (before_connected (server_start p conn))"
  from server_start_failed [OF False, of p] obtain pre where
    pre: "list_all failed_attempt pre" "server_start p conn = [Middleware, HealthRoute] @ pre @ [Connect False, Exit 1]"
    by blast
  moreover from pre(1) have "\<forall>x\<in>set pre. x \<noteq> Connect True"
    by (auto dest: failed_not_connected)
  ultimately have "before_connected (server_start p conn) = [Middleware, HealthRoute] @ pre @ [Connect False, Exit 1]"
    by (simp add: before_connected_def)
  with e pre(1) show ?thesis
    by (auto dest: failed_not_serving)
qed

lemma all_attempts_fail:
  assumes "\<forall>k\<le>5. \<not> conn k"
  shows "server_start p conn =
     [Middleware, HealthRoute, Connect False, Sleep 5000, Connect False, Sleep 7500,
      Connect False, Sleep 11250, Connect False, Sleep 16875, Connect False, Sleep 25312.5,
      Connect False, Exit 1]"
proof -
  have "\<not> conn 0" "\<not> conn 1" "\<not> conn 2" "\<not> conn 3" "\<not> conn 4" "\<not> conn 5"
    using assms by simp_all
  then have "\<not> conn 0" "\<not> conn (Suc 0)" "\<not> conn (Suc (Suc 0))" "\<not> conn (Suc (Suc (Suc 0)))"
    "\<not> conn (Suc (Suc (Suc (Suc 0))))" "\<not> conn (Suc (Suc (Suc (Suc (Suc 0)))))"
    by (simp_all add: eval_nat_numeral)
  then show ?thesis
    by (simp add: server_start_def initializeApp_def eval_nat_numeral)
qed

text \<open>
  C10. The start-up makes at most five retries after the first connection attempt; the
  wait before retry \<open>i\<close> is \<open>5000 * 1.5 ^ i\<close> milliseconds, so the waits start at 5000
  and each is 1.5 times the one before. No router is mounted and the server does not
  listen before an attempt has connected (the middleware and the health probe are
  installed when the module loads, but nothing is served before \<open>Listen\<close>). When one of
  the six attempts connects, the routers are mounted and the trace ends with \<open>Listen\<close>;
  when all six fail, the trace is the six attempts with the five waits followed by
  \<open>Exit 1\<close>, with no router and no \<open>Listen\<close>.
\<close>

theorem bootstrap_retries_then_serves:
  "length (sleeps (server_start p conn)) \<le> 5
   \<and> attempts (server_start p conn) = Suc (length (sleeps (server_start p conn)))
   \<and> sleeps (server_start p conn) =
       map (\<lambda>i. 5000 * 1.5 ^ i) [0..<length (sleeps (server_start p conn))]
   \<and> (\<forall>e \<in> set (before_connected (server_start p conn)). \<not> serving e)
   \<and> ((\<exists>k\<le>5. conn k) \<longrightarrow>
        Connect True \<in> set (server_start p conn)
      \<and> UseRouter ''/api/users'' \<in> set (server_start p conn)
      \<and> last (server_start p conn) = Listen
      \<and> Exit 1 \<notin> set (server_start p conn))
   \<and> ((\<forall>k\<le>5. \<not> conn k) \<longrightarrow>
        server_start p conn =
          [Middleware, HealthRoute, Connect False, Sleep 5000, Connect False, Sleep 7500,
           Connect False, Sleep 11250, Connect False, Sleep 16875, Connect False,
           Sleep 25312.5, Connect False, Exit 1])"
proof (intro conjI impI)
  show "length (sleeps (server_start p conn)) \<le> 5"
    by (simp only: initializeApp_sleeps connectDB_sleeps_le)
  show "attempts (server_start p conn) = Suc (length (sleeps (server_start p conn)))"
    by (simp only: initializeApp_sleeps initializeApp_attempts connectDB_attempts)
  show "sleeps (server_start p conn) =
       map (\<lambda>i. 5000 * 1.5 ^ i) [0..<length (sleeps (server_start p conn))]"
    unfolding initializeApp_sleeps by (rule connectDB_sleeps)
  show "\<forall>e \<in> set (before_connected (server_start p conn)). \<not> serving e"
    using server_start_before_connected by blast
next
  assume "\<exists>k\<le>5. conn k"
  then have ok: "fst (connectDB conn 0 5 5000)"
    by (simp add: connectDB_result)
  from server_start_connected [OF ok, of p] obtain pre where
    pre: "list_all failed_attempt pre"
      "server_start p conn =
             [Middleware, HealthRoute] @ pre @ Connect True #
               [ConfigureCloudinary, UseRouter ''/api/blogs'', UseRouter ''/api/users'']
               @ (if p then [ServeStatic] else []) @ [ErrorHandling, Listen]"
    by blast
  have npre: "Exit 1 \<notin> set pre"
    using pre(1) by (auto simp: list_all_iff)
  show "Connect True \<in> set (server_start p conn)" using pre(2) by simp
  show "UseRouter ''/api/users'' \<in> set (server_start p conn)" using pre(2) by simp
  show "last (server_start p conn) = Listen" using pre(2) by simp
  show "Exit 1 \<notin> set (server_start p conn)" using pre(2) npre by simp
next
  assume "\<forall>k\<le>5. \<not> conn k"
  then show "server_start p conn =
          [Middleware, HealthRoute, Connect False, Sleep 5000, Connect False, Sleep 7500,
           Connect False, Sleep 11250, Connect False, Sleep 16875, Connect False,
           Sleep 25312.5, Connect False, Exit 1]"
    by (rule all_attempts_fail)
qed

theorem bootstrap_retries_then_serves_witness:
  "(\<exists>k\<le>5. connects_at 2 k)
   \<and> last (server_start True (connects_at 2)) = Listen
   \<and> sleeps (server_start True (connects_at 2)) = [5000, 7500]
   \<and> \<not> never_connects 0 \<and> \<not> never_connects 1 \<and> \<not> never_connects 2
   \<and> \<not> never_connects 3 \<and> \<not> never_connects 4 \<and> \<not> never_connects 5
   \<and> server_start True never_connects =
          [Middleware, HealthRoute, Connect False, Sleep 5000, Connect False, Sleep 7500,
           Connect False, Sleep 11250, Connect False, Sleep 16875, Connect False,
           Sleep 25312.5, Connect False, Exit 1]"
proof -
  have h1: "\<exists>k\<le>5. connects_at 2 k"
    by (rule exI [of _ 2]) (simp add: connects_at_def)
  have h2: "\<forall>k\<le>5. \<not> never_connects k"
    by (simp add: never_connects_def)
  have s: "sleeps (server_start True (connects_at 2)) = [5000, 7500]"
    by (simp add: server_start_def initializeApp_def connects_at_def eval_nat_numeral)
  note t1 = bootstrap_retries_then_serves [of True "connects_at 2"]
  note t2 = bootstrap_retries_then_serves [of True never_connects]
  from t1 h1 have l: "last (server_start True (connects_at 2)) = Listen"
    by blast
  from t2 h2 have f: "server_start True never_connects =
          [Middleware, HealthRoute, Connect False, Sleep 5000, Connect False, Sleep 7500,
           Connect False, Sleep 11250, Connect False, Sleep 16875, Connect False,
           Sleep 25312.5, Connect False, Exit 1]"
    by blast
  have n: "\<not> never_connects 0" "\<not> never_connects 1" "\<not> never_connects 2"
    "\<not> never_connects 3" "\<not> never_connects 4" "\<not> never_connects 5"
    by (simp_all add: never_connects_def)
  show ?thesis using h1 l s n f by blast
qed

section \<open>Properties of the login form\<close>

text \<open>
  In every state that the user's actions can reach, the passphrase field is empty unless
  the popup is shown, and the popup is shown in login mode only: the only input bound to
  the field is inside the popup, closing the popup clears it, and the switch to signup
  resets the form.
\<close>

lemmas handler_defs = handleSubmit_def handlePassphraseSubmit_def handleInputChange_def
  closePopup_def toggleSignup_def

lemma handleSubmit_keeps:
  "isSignup (fst (handleSubmit a s)) = isSignup s"
  "formData (fst (handleSubmit a s)) = formData s"
  "showPassphrasePopup s \<Longrightarrow> showPassphrasePopup (fst (handleSubmit a s))"
  "isSignup s \<Longrightarrow> showPassphrasePopup (fst (handleSubmit a s)) = showPassphrasePopup s"
  by (auto simp: handleSubmit_def Let_def split: promise.splits)

lemma handlePassphraseSubmit_keeps:
  "isSignup (fst (handlePassphraseSubmit a s)) = isSignup s"
  "formData (fst (handlePassphraseSubmit a s)) = formData s"
  "showPassphrasePopup (fst (handlePassphraseSubmit a s)) = showPassphrasePopup s"
  by (auto simp: handlePassphraseSubmit_def Let_def split: promise.splits option.splits prod.splits)

lemma step_popup_closed:
  assumes "\<not> showPassphrasePopup s \<longrightarrow> passphrase (formData s) = []"
    and "showPassphrasePopup s \<longrightarrow> \<not> isSignup s"
  shows "(\<not> showPassphrasePopup (step a s ev) \<longrightarrow> passphrase (formData (step a s ev)) = [])
       \<and> (showPassphrasePopup (step a s ev) \<longrightarrow> \<not> isSignup (step a s ev))"
proof (cases ev)
  case Submit
  with assms show ?thesis
    by (cases "isSignup s") (auto simp: step_def handleSubmit_keeps)
next
  case PassphraseSubmit
  with assms show ?thesis
    by (auto simp: step_def handlePassphraseSubmit_keeps)
next
  case (InputChange i v)
  with assms show ?thesis
    by (cases i) (auto simp: step_def handleInputChange_def)
next
  case ClosePopup
  with assms show ?thesis
    by (auto simp: step_def closePopup_def)
next
  case ToggleSignup
  with assms show ?thesis
    by (auto simp: step_def toggleSignup_def empty_form_def)
qed

lemma run_snoc: "run a (evs @ [ev]) = step a (run a evs) ev"
  by (simp add: run_def)

lemma run_popup_closed:
  "(\<not> showPassphrasePopup (run a evs) \<longrightarrow> passphrase (formData (run a evs)) = [])
   \<and> (showPassphrasePopup (run a evs) \<longrightarrow> \<not> isSignup (run a evs))"
proof (induction evs rule: rev_induct)
  case Nil
  show ?case by (simp add: run_def initial_def empty_form_def)
next
  case (snoc ev evs)
  then show ?case
    unfolding run_snoc by (intro step_popup_closed) simp_all
qed

lemma signup_session_state:
  "run signup_only signup_session =
     \<lparr>isSignup = True, showPassphrasePopup = False,
      formData = \<lparr>name = ''Ann'', email = ''ann@example.com'', password = ''secret'',
                  phone = ''555'', passphrase = []\<rparr>,
      generatedPassphrase = [], error = [], success = [], loading = False,
      tempLoginData = None, timers = []\<rparr>"
  by (simp add: run_def signup_session_def step_def handler_defs Let_def initial_def
      empty_form_def signup_only_def)


text \<open>
  C7. After a successful signup (the main form in signup mode, the four required fields
  filled in, \<^verbatim>\<open>signup\<close> resolving to true), the passphrase put into the success message
  is the form's passphrase field as it was at submission, and in every reachable state that
  field is the empty string, so that no passphrase box is rendered. The user context is
  arbitrary: whatever passphrase the registration response carried does not enter the
  result.
\<close>

theorem signup_shows_form_passphrase:
  assumes "s = run a evs"
    and "isSignup s"
    and "name (formData s) \<noteq> []" and "email (formData s) \<noteq> []"
    and "password (formData s) \<noteq> []" and "phone (formData s) \<noteq> []"
    and "signup a (name (formData s)) (email (formData s)) (password (formData s))
           (phone (formData s)) = Resolved True"
  shows "rendered s Submit
       \<and> success (fst (handleSubmit a s))
           = ''Account created successfully! Please save your passphrase:''
       \<and> generatedPassphrase (fst (handleSubmit a s)) = passphrase (formData s)
       \<and> passphrase (formData s) = []
       \<and> shown_passphrase (fst (handleSubmit a s)) = None"
proof -
  from run_popup_closed [of a evs] assms(1,2)
  have closed: "\<not> showPassphrasePopup s" and empty: "passphrase (formData s) = []"
    by auto
  from closed have "rendered s Submit" by simp
  moreover from assms(2-7)
  have "success (fst (handleSubmit a s))
           = ''Account created successfully! Please save your passphrase:''"
    and "generatedPassphrase (fst (handleSubmit a s)) = passphrase (formData s)"
    by (simp_all add: handleSubmit_def Let_def)
  moreover from this empty have "shown_passphrase (fst (handleSubmit a s)) = None"
    by (simp add: shown_passphrase_def)
  ultimately show ?thesis using empty by blast
qed

theorem signup_shows_form_passphrase_witness:
  "isSignup (run signup_only signup_session)
   \<and> formData (run signup_only signup_session)
       = \<lparr>name = ''Ann'', email = ''ann@example.com'', password = ''secret'',
          phone = ''555'', passphrase = []\<rparr>
   \<and> signup signup_only ''Ann'' ''ann@example.com'' ''secret'' ''555'' = Resolved True
   \<and> success (fst (handleSubmit signup_only (run signup_only signup_session)))
       = ''Account created successfully! Please save your passphrase:''
   \<and> generatedPassphrase (fst (handleSubmit signup_only (run signup_only signup_session))) = []
   \<and> shown_passphrase (fst (handleSubmit signup_only (run signup_only signup_session))) = None"
proof -
  let ?s = "run signup_only signup_session"
  have h1: "?s = run signup_only signup_session" by (rule refl)
  have h2: "isSignup ?s" by (simp add: signup_session_state)
  have f: "formData ?s = \<lparr>name = ''Ann'', email = ''ann@example.com'', password = ''secret'',
          phone = ''555'', passphrase = []\<rparr>"
    by (simp add: signup_session_state)
  have h3: "name (formData ?s) \<noteq> []" and h4: "email (formData ?s) \<noteq> []"
    and h5: "password (formData ?s) \<noteq> []" and h6: "phone (formData ?s) \<noteq> []"
    by (simp_all add: f)
  have r: "signup signup_only ''Ann'' ''ann@example.com'' ''secret'' ''555'' = Resolved True"
    by (simp add: signup_only_def)
  have h7: "signup signup_only (name (formData ?s)) (email (formData ?s)) (password (formData ?s))
           (phone (formData ?s)) = Resolved True"
    by (simp add: signup_only_def)
  note t = signup_shows_form_passphrase [OF h1 h2 h3 h4 h5 h6 h7]
  from t f have g: "generatedPassphrase (fst (handleSubmit signup_only ?s)) = []"
    by simp
  show ?thesis using h2 f r t g by blast
qed

text \<open>
  C9. On the login form, a submission with the email \<open>admin@zamanix.com\<close> never opens the
  passphrase popup: it ends with a success or an error message, and the login call it makes
  carries no passphrase. A submission with any other email that passes the required-fields
  check opens the popup and stores the credentials without calling \<^verbatim>\<open>login\<close>; the
  login call is made afterwards by the popup's own submission, with the passphrase.
\<close>

theorem admin_login_skips_passphrase_popup:
  assumes "\<not> isSignup s" and "\<not> showPassphrasePopup s"
  shows "(email (formData s) = ''admin@zamanix.com'' \<longrightarrow>
            \<not> showPassphrasePopup (fst (handleSubmit a s))
          \<and> phase_of (fst (handleSubmit a s)) \<noteq> AwaitingPassphrase
          \<and> phase_of (fst (handleSubmit a s)) \<in> {Succeeded, Failed}
          \<and> (password (formData s) \<noteq> [] \<longrightarrow>
               snd (handleSubmit a s) = [Login ''admin@zamanix.com'' (password (formData s)) None]))
       \<and> (email (formData s) \<noteq> ''admin@zamanix.com''
            \<and> email (formData s) \<noteq> [] \<and> password (formData s) \<noteq> [] \<longrightarrow>
            phase_of (fst (handleSubmit a s)) = AwaitingPassphrase
          \<and> showPassphrasePopup (fst (handleSubmit a s))
          \<and> tempLoginData (fst (handleSubmit a s))
              = Some (email (formData s), password (formData s))
          \<and> snd (handleSubmit a s) = []
          \<and> snd (handlePassphraseSubmit a (fst (handleSubmit a s)))
              = [Login (email (formData s)) (password (formData s))
                   (Some (passphrase (formData s)))])"
  using assms
  by (auto simp: handleSubmit_def handlePassphraseSubmit_def Let_def phase_of_def
      split: promise.splits)

theorem admin_login_skips_passphrase_popup_witness:
  "\<not> isSignup (login_form ''admin@zamanix.com'' ''zamanix_admin'')
   \<and> \<not> showPassphrasePopup (login_form ''admin@zamanix.com'' ''zamanix_admin'')
   \<and> phase_of (fst (handleSubmit accepting (login_form ''admin@zamanix.com'' ''zamanix_admin'')))
       = Succeeded
   \<and> snd (handleSubmit accepting (login_form ''admin@zamanix.com'' ''zamanix_admin''))
       = [Login ''admin@zamanix.com'' ''zamanix_admin'' None]
   \<and> \<not> isSignup (login_form ''ann@example.com'' ''secret'')
   \<and> \<not> showPassphrasePopup (login_form ''ann@example.com'' ''secret'')
   \<and> phase_of (fst (handleSubmit accepting (login_form ''ann@example.com'' ''secret'')))
       = AwaitingPassphrase
   \<and> snd (handleSubmit accepting (login_form ''ann@example.com'' ''secret'')) = []"
proof -
  let ?a = "login_form ''admin@zamanix.com'' ''zamanix_admin''"
  let ?b = "login_form ''ann@example.com'' ''secret''"
  have a1: "\<not> isSignup ?a" and a2: "\<not> showPassphrasePopup ?a"
    and a3: "email (formData ?a) = ''admin@zamanix.com''"
    and a4: "password (formData ?a) = ''zamanix_admin''"
    by (simp_all add: login_form_def initial_def empty_form_def)
  have b1: "\<not> isSignup ?b" and b2: "\<not> showPassphrasePopup ?b"
    and b3: "email (formData ?b) = ''ann@example.com''"
    and b4: "password (formData ?b) = ''secret''"
    by (simp_all add: login_form_def initial_def empty_form_def)
  have ok: "phase_of (fst (handleSubmit accepting ?a)) = Succeeded"
    by (simp add: handleSubmit_def Let_def login_form_def initial_def empty_form_def
        accepting_def phase_of_def)
  from admin_login_skips_passphrase_popup [OF a1 a2, of accepting] a3 a4
  have ca: "snd (handleSubmit accepting ?a) = [Login ''admin@zamanix.com'' ''zamanix_admin'' None]"
    by simp
  from admin_login_skips_passphrase_popup [OF b1 b2, of accepting] b3 b4
  have cb: "phase_of (fst (handleSubmit accepting ?b)) = AwaitingPassphrase"
    "snd (handleSubmit accepting ?b) = []"
    by simp_all
  show ?thesis using a1 a2 b1 b2 ok ca cb by blast
qed

end
